theory Spec2Isabelle
  imports Main "HOL-Library.Sublist"
begin

section \<open>The FullWash BLE configuration tool (tools/ble\_config\_tool.py)\<close>

text \<open>
  The tool talks to a washing-machine controller through the bleak library: it scans,
  connects, writes a password, reads a status text and writes a machine number. The
  embedding below follows the Python source function by function.

  \<^item> Text (\<open>str\<close>) is a \<open>string\<close>; characters outside ASCII are written as their
    UTF-8 bytes. Byte strings (\<open>bytes\<close>) are \<open>string\<close>s as well.
  \<^item> An exception is a value \<open>Exception m\<close>, where \<open>m\<close> is what \<open>str(e)\<close> gives. Only
    instances of \<open>Exception\<close> are modelled (no interrupt, no cancellation).
  \<^item> Every call into bleak and every \<open>print\<close> is recorded as an \<open>event\<close>; a function
    returns its result, the new state and the events it produced, in order.
  \<^item> What the tool obtains from outside its own source (the bleak client and scanner,
    the codec behind \<open>encode\<close> and \<open>decode\<close>, the case mapping behind \<open>lower\<close>) is a
    parameter, the record \<open>env\<close>.
\<close>

subsection \<open>Constants of the module\<close>

definition SERVICE_UUID :: string where
  "SERVICE_UUID = ''4fafc201-1fb5-459e-8fcc-c5c9c331914b''"

definition AUTH_CHAR_UUID :: string where
  "AUTH_CHAR_UUID = ''beb5483e-36e1-4688-b7f5-ea07361b26a8''"

definition MACHINE_NUM_CHAR_UUID :: string where
  "MACHINE_NUM_CHAR_UUID = ''1c95d5e3-d8f7-413a-bf3d-7a2e5d7be87e''"

definition STATUS_CHAR_UUID :: string where
  "STATUS_CHAR_UUID = ''d8de624e-140f-4a22-8594-e2216b84a5f2''"

definition DEFAULT_DEVICE_NAME :: string where
  "DEFAULT_DEVICE_NAME = ''FullWash Machine''"

definition DEFAULT_PASSWORD :: string where
  "DEFAULT_PASSWORD = ''fullwash2025''"

text \<open>The non-ASCII symbols of the printed messages, as UTF-8 bytes.\<close>

definition check_mark :: string where  \<comment> \<open>U+2713\<close>
  "check_mark = [CHR 0xE2, CHR 0x9C, CHR 0x93]"

definition cross_mark :: string where  \<comment> \<open>U+2717\<close>
  "cross_mark = [CHR 0xE2, CHR 0x9C, CHR 0x97]"

definition warning_sign :: string where  \<comment> \<open>U+26A0 U+FE0F\<close>
  "warning_sign = [CHR 0xE2, CHR 0x9A, CHR 0xA0, CHR 0xEF, CHR 0xB8, CHR 0x8F]"

definition clipboard :: string where  \<comment> \<open>U+1F4CB\<close>
  "clipboard = [CHR 0xF0, CHR 0x9F, CHR 0x93, CHR 0x8B]"

subsection \<open>Python values\<close>

type_synonym bytes = string

datatype exn = Exception (message: string)

text \<open>
  The argument of \<open>write_machine_number\<close> is passed through \<open>str\<close>: it may be an integer
  or, as \<open>main\<close> passes it, the text of a command-line argument.
\<close>

datatype pyval = PyInt int | PyStr string

definition digit_char :: "nat \<Rightarrow> char" where
  "digit_char d = char_of (48 + d)"

function show_nat :: "nat \<Rightarrow> string" where
  "show_nat n = (if n < 10 then [digit_char n] else show_nat (n div 10) @ [digit_char (n mod 10)])"
  by pat_completeness auto
termination
  by (relation "measure id") auto

declare show_nat.simps [simp del]

definition show_int :: "int \<Rightarrow> string" where
  "show_int i = (if i < 0 then CHR ''-'' # show_nat (nat (- i)) else show_nat (nat i))"

fun py_str :: "pyval \<Rightarrow> string" where
  "py_str (PyInt i) = show_int i"
| "py_str (PyStr s) = s"

text \<open>\<open>x or d\<close> for an optional text: \<open>None\<close> and the empty text are both false.\<close>

fun py_or :: "string option \<Rightarrow> string \<Rightarrow> string" where
  "py_or None d = d"
| "py_or (Some s) d = (if s = [] then d else s)"

text \<open>Truth value of an optional text, as \<open>if args.address\<close> tests it.\<close>

fun truthy :: "string option \<Rightarrow> bool" where
  "truthy None = False"
| "truthy (Some s) = (s \<noteq> [])"

text \<open>
  \<open>len\<close> counts code points: in UTF-8 these are the bytes that are not continuation
  bytes (\<open>0x80\<close> to \<open>0xBF\<close>). The format \<open>{name:30}\<close> pads a text with spaces on the
  right up to 30 code points and never cuts it.
\<close>

definition py_len :: "string \<Rightarrow> nat" where
  "py_len s = length (filter (\<lambda>c. \<not> (128 \<le> (of_char c :: nat) \<and> (of_char c :: nat) < 192)) s)"

definition pad30 :: "string \<Rightarrow> string" where
  "pad30 s = s @ replicate (30 - py_len s) CHR '' ''"

subsection \<open>Events, the environment and the state\<close>

datatype event =
    Print string                  \<comment> \<open>\<open>print(text)\<close>\<close>
  | Print_help                    \<comment> \<open>\<open>parser.print_help()\<close>\<close>
  | Sleep nat                     \<comment> \<open>\<open>asyncio.sleep\<close>, in milliseconds\<close>
  | Discover nat                  \<comment> \<open>\<open>BleakScanner.discover(timeout)\<close>, in milliseconds\<close>
  | New_client string             \<comment> \<open>\<open>BleakClient(address)\<close>\<close>
  | Connect                       \<comment> \<open>\<open>client.connect()\<close>\<close>
  | Is_connected bool             \<comment> \<open>reading \<open>client.is_connected\<close>, with the value read\<close>
  | Disconnect                    \<comment> \<open>\<open>client.disconnect()\<close>\<close>
  | Write_gatt_char string bytes  \<comment> \<open>\<open>client.write_gatt_char(uuid, data)\<close>\<close>
  | Read_gatt_char string         \<comment> \<open>\<open>client.read_gatt_char(uuid)\<close>\<close>

record device =
  name :: "string option"
  address :: string

record ('c, 'w) env =
  BleakClient :: "string \<Rightarrow> 'w \<Rightarrow> (exn + 'c) \<times> 'w"
  client_connect :: "'c \<Rightarrow> 'w \<Rightarrow> (exn + unit) \<times> 'w"
  client_is_connected :: "'c \<Rightarrow> 'w \<Rightarrow> bool"
  client_disconnect :: "'c \<Rightarrow> 'w \<Rightarrow> (exn + unit) \<times> 'w"
  write_gatt_char :: "'c \<Rightarrow> string \<Rightarrow> bytes \<Rightarrow> 'w \<Rightarrow> (exn + unit) \<times> 'w"
  read_gatt_char :: "'c \<Rightarrow> string \<Rightarrow> 'w \<Rightarrow> (exn + bytes) \<times> 'w"
  discover :: "nat \<Rightarrow> 'w \<Rightarrow> (exn + device list) \<times> 'w"
  str_encode :: "string \<Rightarrow> exn + bytes"
  bytes_decode :: "bytes \<Rightarrow> exn + string"
  str_lower :: "string \<Rightarrow> string"

text \<open>The class \<open>FullWashBLEConfig\<close>: its three attributes, and \<open>__init__\<close>.\<close>

record 'c FullWashBLEConfig =
  device_address :: string
  password :: string
  client :: "'c option"

definition init :: "string \<Rightarrow> string \<Rightarrow> 'c FullWashBLEConfig" where
  "init device_address' password' =
     \<lparr>device_address = device_address', password = password', client = None\<rparr>"

text \<open>
  The state of a command: the object \<open>config\<close> (it is mutated by \<open>connect\<close>, and keeps
  its new value when an exception is raised afterwards) and the world behind bleak.
\<close>

record ('c, 'w) state =
  self :: "'c FullWashBLEConfig"
  world :: 'w

type_synonym ('c, 'w, 'a) io = "('c, 'w) state \<Rightarrow> (exn + 'a) \<times> ('c, 'w) state \<times> event list"

definition ret :: "'a \<Rightarrow> ('c, 'w, 'a) io" where
  "ret x s = (Inr x, s, [])"

text \<open>Sequencing: an exception of the first part skips the second.\<close>

definition io_bind :: "('c, 'w, 'a) io \<Rightarrow> ('a \<Rightarrow> ('c, 'w, 'b) io) \<Rightarrow> ('c, 'w, 'b) io" where
  "io_bind m f s =
     (case m s of
        (Inl e, s1, t1) \<Rightarrow> (Inl e, s1, t1)
      | (Inr x, s1, t1) \<Rightarrow> (case f x s1 of (r, s2, t2) \<Rightarrow> (r, s2, t1 @ t2)))"

text \<open>\<open>try: m except Exception as e: h e\<close>\<close>

definition try_except :: "('c, 'w, 'a) io \<Rightarrow> (exn \<Rightarrow> ('c, 'w, 'a) io) \<Rightarrow> ('c, 'w, 'a) io" where
  "try_except m h s =
     (case m s of
        (Inl e, s1, t1) \<Rightarrow> (case h e s1 of (r, s2, t2) \<Rightarrow> (r, s2, t1 @ t2))
      | (Inr x, s1, t1) \<Rightarrow> (Inr x, s1, t1))"

text \<open>
  \<open>try: m finally: fin\<close>: \<open>fin\<close> runs whatever \<open>m\<close> did; if \<open>fin\<close> raises, its
  exception replaces the outcome of \<open>m\<close>.
\<close>

definition try_finally :: "('c, 'w, 'a) io \<Rightarrow> ('c, 'w, unit) io \<Rightarrow> ('c, 'w, 'a) io" where
  "try_finally m fin s =
     (case m s of (r, s1, t1) \<Rightarrow>
        (case fin s1 of
           (Inl e, s2, t2) \<Rightarrow> (Inl e, s2, t1 @ t2)
         | (Inr _, s2, t2) \<Rightarrow> (r, s2, t1 @ t2)))"

definition emit :: "event \<Rightarrow> ('c, 'w, unit) io" where
  "emit ev s = (Inr (), s, [ev])"

definition print :: "string \<Rightarrow> ('c, 'w, unit) io" where
  "print text = emit (Print text)"

definition sleep :: "nat \<Rightarrow> ('c, 'w, unit) io" where
  "sleep ms = emit (Sleep ms)"

text \<open>A value that may be an exception (the result of \<open>encode\<close> or \<open>decode\<close>).\<close>

definition lift :: "exn + 'a \<Rightarrow> ('c, 'w, 'a) io" where
  "lift r s = (r, s, [])"

text \<open>A call into bleak: the event is recorded, the world changes, the call may raise.\<close>

definition call :: "event \<Rightarrow> ('w \<Rightarrow> (exn + 'a) \<times> 'w) \<Rightarrow> ('c, 'w, 'a) io" where
  "call ev f s = (case f (world s) of (r, w') \<Rightarrow> (r, s\<lparr>world := w'\<rparr>, [ev]))"

definition get_self :: "('c, 'w, 'c FullWashBLEConfig) io" where
  "get_self s = (Inr (self s), s, [])"

definition set_client :: "'c option \<Rightarrow> ('c, 'w, unit) io" where
  "set_client c s = (Inr (), s\<lparr>self := (self s)\<lparr>client := c\<rparr>\<rparr>, [])"

text \<open>
  \<open>self.client.attr\<close>: while \<open>self.client\<close> is \<open>None\<close> the attribute lookup raises
  AttributeError, before any argument of the call is evaluated.
\<close>

definition client_attr :: "string \<Rightarrow> ('c, 'w, 'c) io" where
  "client_attr attr s =
     (case client (self s) of
        None \<Rightarrow>
          (Inl (Exception ([CHR 0x27] @ ''NoneType'' @ [CHR 0x27] @ '' object has no attribute ''
                             @ [CHR 0x27] @ attr @ [CHR 0x27])), s, [])
      | Some c \<Rightarrow> (Inr c, s, []))"

subsection \<open>The methods of \<open>FullWashBLEConfig\<close>\<close>

definition connect :: "('c, 'w) env \<Rightarrow> ('c, 'w, unit) io" where
  "connect env =
     io_bind get_self (\<lambda>slf.
     io_bind (print (''Connecting to '' @ device_address slf @ ''...'')) (\<lambda>_.
     io_bind (call (New_client (device_address slf)) (BleakClient env (device_address slf))) (\<lambda>c.
     io_bind (set_client (Some c)) (\<lambda>_.
     io_bind (call Connect (client_connect env c)) (\<lambda>_.
     print ''Connected successfully!'')))))"

definition disconnect :: "('c, 'w) env \<Rightarrow> ('c, 'w, unit) io" where
  "disconnect env =
     io_bind get_self (\<lambda>slf.
     case client slf of
       None \<Rightarrow> ret ()
     | Some c \<Rightarrow>
         io_bind (\<lambda>s. (Inr (client_is_connected env c (world s)), s,
                        [Is_connected (client_is_connected env c (world s))])) (\<lambda>connected.
         if connected then
           io_bind (call Disconnect (client_disconnect env c)) (\<lambda>_.
           print ''Disconnected.'')
         else ret ()))"

definition authenticate :: "('c, 'w) env \<Rightarrow> ('c, 'w, bool) io" where
  "authenticate env =
     io_bind (print ''Authenticating...'') (\<lambda>_.
     io_bind (client_attr ''write_gatt_char'') (\<lambda>c.
     io_bind get_self (\<lambda>slf.
     io_bind (lift (str_encode env (password slf))) (\<lambda>data.
     io_bind (call (Write_gatt_char AUTH_CHAR_UUID data) (write_gatt_char env c AUTH_CHAR_UUID data)) (\<lambda>_.
     io_bind (sleep 500) (\<lambda>_.
     io_bind (client_attr ''read_gatt_char'') (\<lambda>c.
     io_bind (call (Read_gatt_char STATUS_CHAR_UUID) (read_gatt_char env c STATUS_CHAR_UUID)) (\<lambda>status.
     io_bind (lift (bytes_decode env status)) (\<lambda>status_str.
     io_bind (print (''Status: '' @ status_str)) (\<lambda>_.
     if sublist ''Authenticated'' status_str then
       io_bind (print (check_mark @ '' Authentication successful!'')) (\<lambda>_. ret True)
     else
       io_bind (print (cross_mark @ '' Authentication failed!'')) (\<lambda>_. ret False)))))))))))"

definition read_machine_number :: "('c, 'w) env \<Rightarrow> ('c, 'w, string) io" where
  "read_machine_number env =
     io_bind (client_attr ''read_gatt_char'') (\<lambda>c.
     io_bind (call (Read_gatt_char MACHINE_NUM_CHAR_UUID) (read_gatt_char env c MACHINE_NUM_CHAR_UUID)) (\<lambda>machine_num.
     lift (bytes_decode env machine_num)))"

definition write_machine_number :: "('c, 'w) env \<Rightarrow> pyval \<Rightarrow> ('c, 'w, bool) io" where
  "write_machine_number env number =
     io_bind (print (''Setting machine number to: '' @ py_str number)) (\<lambda>_.
     io_bind (client_attr ''write_gatt_char'') (\<lambda>c.
     io_bind (lift (str_encode env (py_str number))) (\<lambda>data.
     io_bind (call (Write_gatt_char MACHINE_NUM_CHAR_UUID data) (write_gatt_char env c MACHINE_NUM_CHAR_UUID data)) (\<lambda>_.
     io_bind (sleep 500) (\<lambda>_.
     io_bind (client_attr ''read_gatt_char'') (\<lambda>c.
     io_bind (call (Read_gatt_char STATUS_CHAR_UUID) (read_gatt_char env c STATUS_CHAR_UUID)) (\<lambda>status.
     io_bind (lift (bytes_decode env status)) (\<lambda>status_str.
     io_bind (print (''Status: '' @ status_str)) (\<lambda>_.
     if sublist ''success'' (str_lower env status_str) then
       io_bind (print (check_mark @ '' Machine number updated successfully!'')) (\<lambda>_.
       io_bind (print (warning_sign @ ''  RESTART THE MACHINE for changes to take effect'')) (\<lambda>_.
       ret True))
     else
       io_bind (print (cross_mark @ '' Failed to update machine number'')) (\<lambda>_. ret False))))))))))"

definition get_status :: "('c, 'w) env \<Rightarrow> ('c, 'w, string) io" where
  "get_status env =
     io_bind (client_attr ''read_gatt_char'') (\<lambda>c.
     io_bind (call (Read_gatt_char STATUS_CHAR_UUID) (read_gatt_char env c STATUS_CHAR_UUID)) (\<lambda>status.
     lift (bytes_decode env status)))"

subsection \<open>The commands\<close>

text \<open>
  The loop of \<open>scan_devices\<close> over the discovered devices: the list
  \<open>fullwash_devices\<close> built so far is threaded through, one line is printed per device.
\<close>

fun scan_loop :: "device list \<Rightarrow> device list \<Rightarrow> device list \<times> event list" where
  "scan_loop [] fullwash_devices = (fullwash_devices, [])"
| "scan_loop (d # devices) fullwash_devices =
     (let is_fullwash = sublist DEFAULT_DEVICE_NAME (py_or (name d) []);
          fullwash_devices' = (if is_fullwash then fullwash_devices @ [d] else fullwash_devices);
          prefix = (if is_fullwash then ''>>> '' else ''    '');
          name' = py_or (name d) ''(Unknown)''
      in case scan_loop devices fullwash_devices' of
           (found, lines) \<Rightarrow> (found, Print (prefix @ pad30 name' @ '' | '' @ address d) # lines))"

definition scan_devices :: "('c, 'w) env \<Rightarrow> 'w \<Rightarrow> (exn + device list) \<times> 'w \<times> event list" where
  "scan_devices env w =
     (case discover env 5000 w of
        (Inl e, w1) \<Rightarrow> (Inl e, w1, [Print ''Scanning for BLE devices...'', Discover 5000])
      | (Inr devices, w1) \<Rightarrow>
          (case scan_loop devices [] of
             (fullwash_devices, lines) \<Rightarrow>
               (Inr (if fullwash_devices \<noteq> [] then fullwash_devices else []), w1,
                [Print ''Scanning for BLE devices...'', Discover 5000,
                 Print (CHR 0x0A # replicate 60 CHR ''=''),
                 Print ''Found Devices:'',
                 Print (replicate 60 CHR ''='')]
                @ lines
                @ [Print (replicate 60 CHR ''='')]
                @ (if fullwash_devices \<noteq> [] then
                     [Print (CHR 0x0A # check_mark @ '' Found '' @ show_nat (length fullwash_devices)
                               @ '' FullWash machine(s)'')]
                   else
                     [Print (CHR 0x0A # cross_mark @ '' No FullWash machines found''),
                      Print (CHR 0x0A # ''Troubleshooting:''),
                      Print ''  1. Ensure the machine is powered on'',
                      Print ''  2. Wait 5-10 seconds after power-on'',
                      Print ''  3. Move closer to the device'',
                      Print ''  4. Check that Bluetooth is enabled'']))))"

text \<open>
  A command creates its own \<open>config\<close> object and runs on the world; the object is gone
  when the command is over.
\<close>

definition with_config ::
    "'c FullWashBLEConfig \<Rightarrow> ('c, 'w, 'a) io \<Rightarrow> 'w \<Rightarrow> (exn + 'a) \<times> 'w \<times> event list" where
  "with_config config m w =
     (case m \<lparr>self = config, world = w\<rparr> of (r, s, t) \<Rightarrow> (r, world s, t))"

text \<open>The body of the \<open>try\<close> statement of each command, then the command.\<close>

definition read_body :: "('c, 'w) env \<Rightarrow> ('c, 'w, unit) io" where
  "read_body env =
     io_bind (connect env) (\<lambda>_.
     io_bind (authenticate env) (\<lambda>authenticated.
     if authenticated then
       io_bind (read_machine_number env) (\<lambda>machine_num.
       io_bind (print (CHR 0x0A # clipboard @ '' Current Configuration:'')) (\<lambda>_.
       print (''   Machine Number: '' @ machine_num)))
     else ret ()))"

definition read_configuration ::
    "('c, 'w) env \<Rightarrow> string \<Rightarrow> string \<Rightarrow> 'w \<Rightarrow> (exn + unit) \<times> 'w \<times> event list" where
  "read_configuration env device_address' password' =
     with_config (init device_address' password')
       (try_finally
          (try_except (read_body env) (\<lambda>e. print (''Error: '' @ message e)))
          (disconnect env))"

definition configure_body :: "('c, 'w) env \<Rightarrow> pyval \<Rightarrow> ('c, 'w, bool) io" where
  "configure_body env machine_number =
     io_bind (connect env) (\<lambda>_.
     io_bind (authenticate env) (\<lambda>authenticated.
     if \<not> authenticated then
       io_bind (print ''Authentication failed. Cannot configure machine.'') (\<lambda>_.
       ret False)
     else
       io_bind (read_machine_number env) (\<lambda>current_num.
       io_bind (print (''Current machine number: '' @ current_num)) (\<lambda>_.
       io_bind (write_machine_number env machine_number) (\<lambda>written.
       if written then
         io_bind (read_machine_number env) (\<lambda>new_num.
         io_bind (print (''Verified new machine number: '' @ new_num)) (\<lambda>_.
         ret True))
       else ret False)))))"

definition configure_machine ::
    "('c, 'w) env \<Rightarrow> string \<Rightarrow> pyval \<Rightarrow> string \<Rightarrow> 'w \<Rightarrow> (exn + bool) \<times> 'w \<times> event list" where
  "configure_machine env device_address' machine_number password' =
     with_config (init device_address' password')
       (try_finally
          (try_except (configure_body env machine_number)
             (\<lambda>e. io_bind (print (''Error: '' @ message e)) (\<lambda>_. ret False)))
          (disconnect env))"

subsection \<open>The command line\<close>

text \<open>
  The namespace that \<open>parser.parse_args()\<close> returns: two flags, and three options that
  hold the text given on the command line (\<open>None\<close> when the option is absent; the
  password has a default).
\<close>

record args =
  args_scan :: bool
  args_read :: bool
  args_configure :: "string option"
  args_address :: "string option"
  args_password :: string

text \<open>
  How \<open>main\<close> ends: it returns, it leaves through \<open>sys.exit(n)\<close>, or an exception
  escapes it. The exit status of the process follows: an uncaught exception makes the
  interpreter exit with status 1.
\<close>

datatype outcome = Returned | Sys_exit nat | Uncaught exn

fun exit_status :: "outcome \<Rightarrow> nat" where
  "exit_status Returned = 0"
| "exit_status (Sys_exit n) = n"
| "exit_status (Uncaught e) = 1"

text \<open>\<open>asyncio.run(coro)\<close> as a statement: the result is dropped, an exception passes.\<close>

definition asyncio_run ::
    "('w \<Rightarrow> (exn + 'a) \<times> 'w \<times> event list) \<Rightarrow> 'w \<Rightarrow> outcome \<times> 'w \<times> event list" where
  "asyncio_run coro w =
     (case coro w of
        (Inl e, w1, t) \<Rightarrow> (Uncaught e, w1, t)
      | (Inr _, w1, t) \<Rightarrow> (Returned, w1, t))"

text \<open>
  \<open>main\<close> after \<open>parse_args\<close>. Where an option is passed on it has been tested to be
  true, so \<open>py_or x []\<close> is its text.
\<close>

definition main :: "('c, 'w) env \<Rightarrow> args \<Rightarrow> 'w \<Rightarrow> outcome \<times> 'w \<times> event list" where
  "main env args w =
     (if args_scan args then asyncio_run (scan_devices env) w
      else if args_read args then
        (if \<not> truthy (args_address args) then
           (Sys_exit 1, w, [Print ''Error: --address is required for --read'', Print_help])
         else
           asyncio_run (read_configuration env (py_or (args_address args) [])
                          (args_password args)) w)
      else if truthy (args_configure args) then
        (if \<not> truthy (args_address args) then
           (Sys_exit 1, w, [Print ''Error: --address is required for --configure'', Print_help])
         else
           asyncio_run (configure_machine env (py_or (args_address args) [])
                          (PyStr (py_or (args_configure args) [])) (args_password args)) w)
      else (Returned, w, [Print_help]))"

subsection \<open>A simulated device\<close>

text \<open>
  To run the model on concrete inputs: a device that answers the password \<open>secret\<close>
  with the status \<open>Authenticated\<close>, stores the machine number written to it, and a
  scanner whose outcome is given. Text is ASCII here, so the codec is the identity.
\<close>

record sim =
  sim_connected :: bool
  sim_status :: bytes
  sim_number :: bytes

definition ascii_lower :: "char \<Rightarrow> char" where
  "ascii_lower c =
     (if 65 \<le> (of_char c :: nat) \<and> (of_char c :: nat) \<le> 90 then char_of (of_char c + 32 :: nat) else c)"

definition sim_lower :: "string \<Rightarrow> string" where
  "sim_lower = map ascii_lower"

definition sim_env :: "bytes \<Rightarrow> exn + device list \<Rightarrow> (unit, sim) env" where
  "sim_env secret scanned =
     \<lparr>BleakClient = (\<lambda>addr w. (Inr (), w)),
      client_connect = (\<lambda>c w. (Inr (), w\<lparr>sim_connected := True\<rparr>)),
      client_is_connected = (\<lambda>c w. sim_connected w),
      client_disconnect = (\<lambda>c w. (Inr (), w\<lparr>sim_connected := False\<rparr>)),
      write_gatt_char = (\<lambda>c uuid data w.
         if uuid = AUTH_CHAR_UUID then
           (Inr (), w\<lparr>sim_status := (if data = secret then ''Authenticated'' else ''Authentication failed'')\<rparr>)
         else if uuid = MACHINE_NUM_CHAR_UUID then
           (Inr (), w\<lparr>sim_number := data, sim_status := ''Machine number updated successfully''\<rparr>)
         else (Inl (Exception ''Characteristic not found''), w)),
      read_gatt_char = (\<lambda>c uuid w.
         if uuid = STATUS_CHAR_UUID then (Inr (sim_status w), w)
         else if uuid = MACHINE_NUM_CHAR_UUID then (Inr (sim_number w), w)
         else (Inl (Exception ''Characteristic not found''), w)),
      discover = (\<lambda>timeout w. (scanned, w)),
      str_encode = Inr,
      bytes_decode = Inr,
      str_lower = sim_lower\<rparr>"

definition sim0 :: sim where
  "sim0 = \<lparr>sim_connected = False, sim_status = ''Ready'', sim_number = ''7''\<rparr>"


text \<open>The same device with a client whose \<open>disconnect\<close> raises.\<close>

definition failing_disconnect :: "(unit, sim) env" where
  "failing_disconnect =
     (sim_env ''fullwash2025'' (Inr []))
       \<lparr>client_disconnect := (\<lambda>c w. (Inl (Exception ''Disconnect failed''), w))\<rparr>"

subsection \<open>An auxiliary notion for the proofs\<close>

text \<open>
  A step is steady for \<open>P\<close> when it leaves the object \<open>config\<close> as it is and every
  event it produces satisfies \<open>P\<close>.
\<close>

definition steady :: "(event \<Rightarrow> bool) \<Rightarrow> ('c, 'w, 'a) io \<Rightarrow> bool" where
  "steady P m = (\<forall>s. self (fst (snd (m s))) = self s \<and> (\<forall>ev \<in> set (snd (snd (m s))). P ev))"

section \<open>Properties\<close>

subsection \<open>The two status checks\<close>

lemmas io_defs =
  io_bind_def print_def emit_def client_attr_def get_self_def set_client_def lift_def call_def
  sleep_def ret_def

lemma authenticate_ok:
  assumes "client (self s) = Some c"
    and "str_encode env (password (self s)) = Inr data"
    and "write_gatt_char env c AUTH_CHAR_UUID data (world s) = (Inr (), w1)"
    and "read_gatt_char env c STATUS_CHAR_UUID w1 = (Inr status, w2)"
    and "bytes_decode env status = Inr status_str"
  shows "authenticate env s =
           (Inr (sublist ''Authenticated'' status_str), s\<lparr>world := w2\<rparr>,
            [Print ''Authenticating...'',
             Write_gatt_char AUTH_CHAR_UUID data,
             Sleep 500,
             Read_gatt_char STATUS_CHAR_UUID,
             Print (''Status: '' @ status_str),
             Print (if sublist ''Authenticated'' status_str
                    then check_mark @ '' Authentication successful!''
                    else cross_mark @ '' Authentication failed!'')])"
  using assms by (simp add: authenticate_def io_defs)

lemma authenticate_returns:
  assumes "fst (authenticate env s) = Inr b"
  shows "\<exists>c data w1 status w2 status_str.
           client (self s) = Some c \<and> str_encode env (password (self s)) = Inr data \<and>
           write_gatt_char env c AUTH_CHAR_UUID data (world s) = (Inr (), w1) \<and>
           read_gatt_char env c STATUS_CHAR_UUID w1 = (Inr status, w2) \<and>
           bytes_decode env status = Inr status_str \<and>
           b = sublist ''Authenticated'' status_str"
  using assms
  by (auto simp add: authenticate_def io_defs
      split: option.splits sum.splits prod.splits if_splits)

text \<open>
  Claim C1. \<open>authenticate\<close> writes the encoded password to the authentication
  characteristic, sleeps, reads the status characteristic and decodes it; when these
  steps go through, with status text \<open>status_str\<close>, the events are exactly these, in
  this order, and the result is \<open>True\<close> if \<open>Authenticated\<close> is a contiguous part of
  \<open>status_str\<close> and \<open>False\<close> otherwise. Conversely, whenever \<open>authenticate\<close> returns
  a value, a status text was read in this way and the value is the outcome of that test.
\<close>

theorem authenticate_spec:
  "(\<forall>c data w1 status w2 status_str.
      client (self s) = Some c \<and> str_encode env (password (self s)) = Inr data \<and>
      write_gatt_char env c AUTH_CHAR_UUID data (world s) = (Inr (), w1) \<and>
      read_gatt_char env c STATUS_CHAR_UUID w1 = (Inr status, w2) \<and>
      bytes_decode env status = Inr status_str \<longrightarrow>
      authenticate env s =
        (Inr (\<exists>before after. status_str = before @ ''Authenticated'' @ after), s\<lparr>world := w2\<rparr>,
         [Print ''Authenticating...'',
          Write_gatt_char AUTH_CHAR_UUID data,
          Sleep 500,
          Read_gatt_char STATUS_CHAR_UUID,
          Print (''Status: '' @ status_str),
          Print (if \<exists>before after. status_str = before @ ''Authenticated'' @ after
                 then check_mark @ '' Authentication successful!''
                 else cross_mark @ '' Authentication failed!'')]))
   \<and> (\<forall>b. fst (authenticate env s) = Inr b \<longrightarrow>
        (\<exists>c data w1 status w2 status_str.
           client (self s) = Some c \<and> str_encode env (password (self s)) = Inr data \<and>
           write_gatt_char env c AUTH_CHAR_UUID data (world s) = (Inr (), w1) \<and>
           read_gatt_char env c STATUS_CHAR_UUID w1 = (Inr status, w2) \<and>
           bytes_decode env status = Inr status_str \<and>
           b = (\<exists>before after. status_str = before @ ''Authenticated'' @ after)))"
  using authenticate_ok [of s _ env] authenticate_returns [of env s]
  unfolding sublist_def by blast

theorem authenticate_spec_witness:
  "authenticate (sim_env ''fullwash2025'' (Inr []))
     \<lparr>self = \<lparr>device_address = ''AA:BB'', password = ''fullwash2025'', client = Some ()\<rparr>,
      world = sim0\<rparr>
   = (Inr True,
      \<lparr>self = \<lparr>device_address = ''AA:BB'', password = ''fullwash2025'', client = Some ()\<rparr>,
       world = sim0\<lparr>sim_status := ''Authenticated''\<rparr>\<rparr>,
      [Print ''Authenticating...'',
       Write_gatt_char AUTH_CHAR_UUID ''fullwash2025'',
       Sleep 500,
       Read_gatt_char STATUS_CHAR_UUID,
       Print ''Status: Authenticated'',
       Print (check_mark @ '' Authentication successful!'')])"
proof -
  have "\<exists>before after. ''Authenticated'' = before @ ''Authenticated'' @ after"
    by (rule exI [of _ "[]"], rule exI [of _ "[]"]) simp
  then show ?thesis
    using authenticate_spec [THEN conjunct1, rule_format,
        where c = "()" and data = "''fullwash2025''"
          and ?w1.0 = "sim0\<lparr>sim_status := ''Authenticated''\<rparr>"
          and status = "''Authenticated''"
          and ?w2.0 = "sim0\<lparr>sim_status := ''Authenticated''\<rparr>"
          and status_str = "''Authenticated''"
          and env = "sim_env ''fullwash2025'' (Inr [])"
          and s = "\<lparr>self = \<lparr>device_address = ''AA:BB'', password = ''fullwash2025'',
                          client = Some ()\<rparr>, world = sim0\<rparr>"]
    by (simp add: sim_env_def sim0_def AUTH_CHAR_UUID_def STATUS_CHAR_UUID_def)
qed

lemma write_machine_number_ok:
  assumes "client (self s) = Some c"
    and "str_encode env (py_str number) = Inr data"
    and "write_gatt_char env c MACHINE_NUM_CHAR_UUID data (world s) = (Inr (), w1)"
    and "read_gatt_char env c STATUS_CHAR_UUID w1 = (Inr status, w2)"
    and "bytes_decode env status = Inr status_str"
  shows "write_machine_number env number s =
           (Inr (sublist ''success'' (str_lower env status_str)), s\<lparr>world := w2\<rparr>,
            [Print (''Setting machine number to: '' @ py_str number),
             Write_gatt_char MACHINE_NUM_CHAR_UUID data,
             Sleep 500,
             Read_gatt_char STATUS_CHAR_UUID,
             Print (''Status: '' @ status_str)]
            @ (if sublist ''success'' (str_lower env status_str)
               then [Print (check_mark @ '' Machine number updated successfully!''),
                     Print (warning_sign @ ''  RESTART THE MACHINE for changes to take effect'')]
               else [Print (cross_mark @ '' Failed to update machine number'')]))"
  using assms by (simp add: write_machine_number_def io_defs)

lemma write_machine_number_returns:
  assumes "fst (write_machine_number env number s) = Inr b"
  shows "\<exists>c data w1 status w2 status_str.
           client (self s) = Some c \<and> str_encode env (py_str number) = Inr data \<and>
           write_gatt_char env c MACHINE_NUM_CHAR_UUID data (world s) = (Inr (), w1) \<and>
           read_gatt_char env c STATUS_CHAR_UUID w1 = (Inr status, w2) \<and>
           bytes_decode env status = Inr status_str \<and>
           b = sublist ''success'' (str_lower env status_str)"
  using assms
  by (auto simp add: write_machine_number_def io_defs
      split: option.splits sum.splits prod.splits if_splits)

text \<open>
  Claim C2. \<open>write_machine_number\<close> turns its argument into text with \<open>str\<close>, encodes
  it and writes it to the machine-number characteristic, sleeps, reads the status
  characteristic and decodes it; when these steps go through, with status text
  \<open>status_str\<close>, the events are exactly these, in this order, and the result is \<open>True\<close>
  if \<open>success\<close> is a contiguous part of the lower-cased \<open>status_str\<close> and \<open>False\<close>
  otherwise. Conversely, whenever \<open>write_machine_number\<close> returns a value, a status
  text was read in this way and the value is the outcome of that test.
\<close>

theorem write_machine_number_spec:
  "(\<forall>c data w1 status w2 status_str.
      client (self s) = Some c \<and> str_encode env (py_str number) = Inr data \<and>
      write_gatt_char env c MACHINE_NUM_CHAR_UUID data (world s) = (Inr (), w1) \<and>
      read_gatt_char env c STATUS_CHAR_UUID w1 = (Inr status, w2) \<and>
      bytes_decode env status = Inr status_str \<longrightarrow>
      write_machine_number env number s =
        (Inr (\<exists>before after. str_lower env status_str = before @ ''success'' @ after),
         s\<lparr>world := w2\<rparr>,
         [Print (''Setting machine number to: '' @ py_str number),
          Write_gatt_char MACHINE_NUM_CHAR_UUID data,
          Sleep 500,
          Read_gatt_char STATUS_CHAR_UUID,
          Print (''Status: '' @ status_str)]
         @ (if \<exists>before after. str_lower env status_str = before @ ''success'' @ after
            then [Print (check_mark @ '' Machine number updated successfully!''),
                  Print (warning_sign @ ''  RESTART THE MACHINE for changes to take effect'')]
            else [Print (cross_mark @ '' Failed to update machine number'')])))
   \<and> (\<forall>b. fst (write_machine_number env number s) = Inr b \<longrightarrow>
        (\<exists>c data w1 status w2 status_str.
           client (self s) = Some c \<and> str_encode env (py_str number) = Inr data \<and>
           write_gatt_char env c MACHINE_NUM_CHAR_UUID data (world s) = (Inr (), w1) \<and>
           read_gatt_char env c STATUS_CHAR_UUID w1 = (Inr status, w2) \<and>
           bytes_decode env status = Inr status_str \<and>
           b = (\<exists>before after. str_lower env status_str = before @ ''success'' @ after)))"
  using write_machine_number_ok [of s _ env number] write_machine_number_returns [of env number s]
  unfolding sublist_def by blast

theorem write_machine_number_spec_witness:
  "write_machine_number (sim_env ''fullwash2025'' (Inr [])) (PyInt 42)
     \<lparr>self = \<lparr>device_address = ''AA:BB'', password = ''fullwash2025'', client = Some ()\<rparr>,
      world = sim0\<rparr>
   = (Inr True,
      \<lparr>self = \<lparr>device_address = ''AA:BB'', password = ''fullwash2025'', client = Some ()\<rparr>,
       world = sim0\<lparr>sim_number := ''42'', sim_status := ''Machine number updated successfully''\<rparr>\<rparr>,
      [Print ''Setting machine number to: 42'',
       Write_gatt_char MACHINE_NUM_CHAR_UUID ''42'',
       Sleep 500,
       Read_gatt_char STATUS_CHAR_UUID,
       Print ''Status: Machine number updated successfully'',
       Print (check_mark @ '' Machine number updated successfully!''),
       Print (warning_sign @ ''  RESTART THE MACHINE for changes to take effect'')])"
proof -
  have low: "sim_lower ''Machine number updated successfully''
               = ''machine number updated successfully''"
    by code_simp
  have "''machine number updated successfully'' = ''machine number updated '' @ ''success'' @ ''fully''"
    by simp
  then have ex: "\<exists>before after.
      ''machine number updated successfully'' = before @ ''success'' @ after"
    by blast
  have str: "show_int 42 = ''42''"
    by code_simp
  show ?thesis
    using ex write_machine_number_spec [THEN conjunct1, rule_format,
        where c = "()" and data = "''42''"
          and ?w1.0 = "sim0\<lparr>sim_number := ''42'', sim_status := ''Machine number updated successfully''\<rparr>"
          and status = "''Machine number updated successfully''"
          and ?w2.0 = "sim0\<lparr>sim_number := ''42'', sim_status := ''Machine number updated successfully''\<rparr>"
          and status_str = "''Machine number updated successfully''"
          and env = "sim_env ''fullwash2025'' (Inr [])"
          and number = "PyInt 42"
          and s = "\<lparr>self = \<lparr>device_address = ''AA:BB'', password = ''fullwash2025'',
                          client = Some ()\<rparr>, world = sim0\<rparr>"]
    by (simp add: str low sim_env_def sim0_def AUTH_CHAR_UUID_def MACHINE_NUM_CHAR_UUID_def
        STATUS_CHAR_UUID_def)
qed

subsection \<open>Scanning\<close>

lemma scan_loop_found: "fst (scan_loop devices acc) =
   acc @ filter (\<lambda>d. sublist DEFAULT_DEVICE_NAME (py_or (name d) [])) devices"
  by (induction devices arbitrary: acc) (simp_all add: Let_def case_prod_unfold)

lemma scan_loop_lines: "snd (scan_loop devices acc) =
   map (\<lambda>d. Print ((if sublist DEFAULT_DEVICE_NAME (py_or (name d) []) then ''>>> '' else ''    '')
         @ pad30 (py_or (name d) ''(Unknown)'') @ '' | '' @ address d)) devices"
  by (induction devices arbitrary: acc) (simp_all add: Let_def case_prod_unfold)

lemma scan_loop_eq:
  "scan_loop devices [] =
     (filter (\<lambda>d. sublist DEFAULT_DEVICE_NAME (py_or (name d) [])) devices,
      map (\<lambda>d. Print ((if sublist DEFAULT_DEVICE_NAME (py_or (name d) []) then ''>>> '' else ''    '')
         @ pad30 (py_or (name d) ''(Unknown)'') @ '' | '' @ address d)) devices)"
  using scan_loop_found [of devices "[]"] scan_loop_lines [of devices "[]"]
  by (simp add: prod_eq_iff)

lemma scan_devices_run:
  assumes "discover env 5000 w = (Inr devices, w1)"
  shows "\<exists>closing. scan_devices env w =
     (Inr (filter (\<lambda>d. sublist DEFAULT_DEVICE_NAME (py_or (name d) [])) devices), w1,
      [Print ''Scanning for BLE devices...'', Discover 5000,
       Print (CHR 0x0A # replicate 60 CHR ''=''), Print ''Found Devices:'',
       Print (replicate 60 CHR ''='')]
      @ map (\<lambda>d. Print ((if sublist DEFAULT_DEVICE_NAME (py_or (name d) []) then ''>>> '' else ''    '')
         @ pad30 (py_or (name d) ''(Unknown)'') @ '' | '' @ address d)) devices
      @ closing)"
  using assms by (simp add: scan_devices_def scan_loop_eq)

lemma scan_devices_ok:
  assumes "discover env 5000 w = (Inr devices, w1)"
  shows "fst (scan_devices env w) =
           Inr (filter (\<lambda>d. sublist DEFAULT_DEVICE_NAME (py_or (name d) [])) devices)"
    and "fst (snd (scan_devices env w)) = w1"
    and "take 2 (snd (snd (scan_devices env w))) = [Print ''Scanning for BLE devices...'', Discover 5000]"
    and "\<And>d. d \<in> set devices \<Longrightarrow>
           Print ((if sublist DEFAULT_DEVICE_NAME (py_or (name d) []) then ''>>> '' else ''    '')
                  @ pad30 (py_or (name d) ''(Unknown)'') @ '' | '' @ address d)
             \<in> set (snd (snd (scan_devices env w)))"
proof -
  from scan_devices_run [OF assms] obtain closing where run: "scan_devices env w =
     (Inr (filter (\<lambda>d. sublist DEFAULT_DEVICE_NAME (py_or (name d) [])) devices), w1,
      [Print ''Scanning for BLE devices...'', Discover 5000,
       Print (CHR 0x0A # replicate 60 CHR ''=''), Print ''Found Devices:'',
       Print (replicate 60 CHR ''='')]
      @ map (\<lambda>d. Print ((if sublist DEFAULT_DEVICE_NAME (py_or (name d) []) then ''>>> '' else ''    '')
         @ pad30 (py_or (name d) ''(Unknown)'') @ '' | '' @ address d)) devices
      @ closing)" ..
  show "fst (scan_devices env w) =
           Inr (filter (\<lambda>d. sublist DEFAULT_DEVICE_NAME (py_or (name d) [])) devices)"
    by (simp add: run)
  show "fst (snd (scan_devices env w)) = w1" by (simp add: run)
  show "take 2 (snd (snd (scan_devices env w))) = [Print ''Scanning for BLE devices...'', Discover 5000]"
    by (simp add: run)
  fix d assume "d \<in> set devices"
  then have "Print ((if sublist DEFAULT_DEVICE_NAME (py_or (name d) []) then ''>>> '' else ''    '')
                  @ pad30 (py_or (name d) ''(Unknown)'') @ '' | '' @ address d)
      \<in> set (map (\<lambda>d. Print ((if sublist DEFAULT_DEVICE_NAME (py_or (name d) []) then ''>>> '' else ''    '')
         @ pad30 (py_or (name d) ''(Unknown)'') @ '' | '' @ address d)) devices)"
    by (rule_tac imageI [of d "set devices", unfolded set_map [symmetric]])
  then show "Print ((if sublist DEFAULT_DEVICE_NAME (py_or (name d) []) then ''>>> '' else ''    '')
                  @ pad30 (py_or (name d) ''(Unknown)'') @ '' | '' @ address d)
             \<in> set (snd (snd (scan_devices env w)))"
    unfolding run snd_conv set_append by blast
qed

text \<open>
  Claim C6. \<open>scan_devices\<close> starts by calling the scanner with the fixed window of
  5 seconds. When the scanner returns the list \<open>devices\<close>, the function returns exactly
  the devices of that list whose name (the empty text when there is none) has
  \<open>FullWash Machine\<close> as a contiguous part, in the order of discovery, so the empty
  list when there is no such device; and every discovered device gets one printed line,
  marked \<open>>>>\<close> when it is in the returned list and with blanks when it is not.
\<close>

theorem scan_devices_spec:
  assumes "discover env 5000 w = (Inr devices, w1)"
  shows "fst (scan_devices env w) =
           Inr (filter (\<lambda>d. sublist ''FullWash Machine'' (py_or (name d) [])) devices)
         \<and> take 2 (snd (snd (scan_devices env w))) =
             [Print ''Scanning for BLE devices...'', Discover 5000]
         \<and> (\<forall>d \<in> set devices.
              Print ((if sublist ''FullWash Machine'' (py_or (name d) []) then ''>>> '' else ''    '')
                     @ pad30 (py_or (name d) ''(Unknown)'') @ '' | '' @ address d)
                \<in> set (snd (snd (scan_devices env w))))"
  using scan_devices_ok [OF assms] unfolding DEFAULT_DEVICE_NAME_def by blast

theorem scan_devices_spec_witness:
  "fst (scan_devices
          (sim_env ''fullwash2025''
             (Inr [\<lparr>name = Some ''FullWash Machine 3'', address = ''AA:01''\<rparr>,
                   \<lparr>name = Some ''Headphones'', address = ''AA:02''\<rparr>,
                   \<lparr>name = Some ''My FullWash Machine'', address = ''AA:03''\<rparr>]))
          sim0)
   = Inr [\<lparr>name = Some ''FullWash Machine 3'', address = ''AA:01''\<rparr>,
          \<lparr>name = Some ''My FullWash Machine'', address = ''AA:03''\<rparr>]"
  using scan_devices_spec [of
      "sim_env ''fullwash2025''
             (Inr [\<lparr>name = Some ''FullWash Machine 3'', address = ''AA:01''\<rparr>,
                   \<lparr>name = Some ''Headphones'', address = ''AA:02''\<rparr>,
                   \<lparr>name = Some ''My FullWash Machine'', address = ''AA:03''\<rparr>])"
      sim0
      "[\<lparr>name = Some ''FullWash Machine 3'', address = ''AA:01''\<rparr>,
                   \<lparr>name = Some ''Headphones'', address = ''AA:02''\<rparr>,
                   \<lparr>name = Some ''My FullWash Machine'', address = ''AA:03''\<rparr>]" sim0]
  by (simp add: sim_env_def sublist_code)

text \<open>The placeholder is nine characters long, so the format adds 21 blanks.\<close>

lemma pad30_unknown: "pad30 ''(Unknown)'' = ''(Unknown)                     ''"
  by code_simp

text \<open>
  Claim C10. When the scanner returns, \<open>scan_devices\<close> returns a list and does not
  raise, whatever the names of the devices are; a discovered device without a name is
  not in the returned list, and the line printed for it is: four blanks in place of the
  mark, the placeholder \<open>(Unknown)\<close> in place of the name, blanks up to the width of 30,
  the separator and the address.
\<close>

theorem scan_devices_nameless:
  assumes "discover env 5000 w = (Inr devices, w1)"
    and "d \<in> set devices" and "name d = None"
  shows "(\<exists>found. fst (scan_devices env w) = Inr found \<and> d \<notin> set found)
         \<and> Print (''    (Unknown)                      | '' @ address d)
             \<in> set (snd (snd (scan_devices env w)))"
proof -
  have "\<not> sublist DEFAULT_DEVICE_NAME (py_or (name d) [])"
    using assms(3) by (simp add: DEFAULT_DEVICE_NAME_def)
  then show ?thesis
    using scan_devices_ok(1) [OF assms(1)] scan_devices_ok(4) [OF assms(1) assms(2)] assms(3)
    by (simp add: pad30_unknown)
qed

theorem scan_devices_nameless_witness:
  "(\<exists>found. fst (scan_devices
          (sim_env ''fullwash2025''
             (Inr [\<lparr>name = Some ''FullWash Machine 3'', address = ''AA:01''\<rparr>,
                   \<lparr>name = None, address = ''AA:02''\<rparr>]))
          sim0) = Inr found \<and> \<lparr>name = None, address = ''AA:02''\<rparr> \<notin> set found)
   \<and> Print ''    (Unknown)                      | AA:02''
       \<in> set (snd (snd (scan_devices
          (sim_env ''fullwash2025''
             (Inr [\<lparr>name = Some ''FullWash Machine 3'', address = ''AA:01''\<rparr>,
                   \<lparr>name = None, address = ''AA:02''\<rparr>]))
          sim0)))"
proof -
  have "discover (sim_env ''fullwash2025''
             (Inr [\<lparr>name = Some ''FullWash Machine 3'', address = ''AA:01''\<rparr>,
                   \<lparr>name = None, address = ''AA:02''\<rparr>])) 5000 sim0
        = (Inr [\<lparr>name = Some ''FullWash Machine 3'', address = ''AA:01''\<rparr>,
                \<lparr>name = None, address = ''AA:02''\<rparr>], sim0)"
    by (simp add: sim_env_def)
  from scan_devices_nameless [OF this, of "\<lparr>name = None, address = ''AA:02''\<rparr>"]
  show ?thesis by simp
qed

subsection \<open>Text of an integer\<close>

lemma show_nat_last: "show_nat n \<noteq> [] \<and> last (show_nat n) = digit_char (n mod 10)"
  by (subst (1 2) show_nat.simps) simp

lemma show_int_last: "\<exists>d<10. last (show_int i) = digit_char d"
proof -
  have "last (show_int i) = digit_char (nat \<bar>i\<bar> mod 10)"
    using show_nat_last [of "nat (- i)"] show_nat_last [of "nat i"]
    by (simp add: show_int_def)
  then show ?thesis by (intro exI [of _ "nat \<bar>i\<bar> mod 10"]) simp
qed

lemma not_int_text: "show_int i \<noteq> ''abc''"
proof
  assume "show_int i = ''abc''"
  then have "last (show_int i) = CHR ''c''" by simp
  with show_int_last [of i] obtain d where "d < 10" "digit_char d = CHR ''c''" by metis
  then have "(of_char (digit_char d) :: nat) = of_char CHR ''c''" by simp
  with \<open>d < 10\<close> show False by (simp add: digit_char_def)
qed


subsection \<open>Steps of a session\<close>

lemma steady_bind:
  assumes "steady P m" and "\<And>x. steady P (f x)"
  shows "steady P (io_bind m f)"
  unfolding steady_def
proof (intro allI)
  fix s
  obtain r s1 t1 where m: "m s = (r, s1, t1)" by (cases "m s") auto
  from assms(1) m have 1: "self s1 = self s" "\<forall>ev \<in> set t1. P ev"
    by (auto simp: steady_def dest: spec [of _ s])
  show "self (fst (snd (io_bind m f s))) = self s \<and> (\<forall>ev\<in>set (snd (snd (io_bind m f s))). P ev)"
  proof (cases r)
    case (Inl e)
    with m 1 show ?thesis by (simp add: io_bind_def)
  next
    case (Inr x)
    obtain r2 s2 t2 where f: "f x s1 = (r2, s2, t2)" by (cases "f x s1") auto
    from assms(2) [of x] f have "self s2 = self s1" "\<forall>ev \<in> set t2. P ev"
      by (auto simp: steady_def dest: spec [of _ s1])
    with m 1 Inr f show ?thesis by (auto simp: io_bind_def)
  qed
qed

lemma steady_basic:
  "steady P (ret x)"
  "steady P (lift v)"
  "steady P get_self"
  "steady P (client_attr a)"
  "P (Print x') \<Longrightarrow> steady P (print x')"
  "P (Sleep n) \<Longrightarrow> steady P (sleep n)"
  "P ev \<Longrightarrow> steady P (call ev g)"
  by (auto simp: steady_def io_defs split: option.splits prod.splits)

lemma steady_if: "steady P a \<Longrightarrow> steady P b \<Longrightarrow> steady P (if c then a else b)"
  by simp

lemma steady_authenticate:
  assumes "\<And>x. P (Print x)" "\<And>n. P (Sleep n)" "\<And>d. P (Write_gatt_char AUTH_CHAR_UUID d)"
    "P (Read_gatt_char STATUS_CHAR_UUID)"
  shows "steady P (authenticate env)"
  unfolding authenticate_def
  by (intro steady_bind steady_basic steady_if assms)




lemma disconnect_cases:
  "client (self s) = None \<Longrightarrow> disconnect env s = (Inr (), s, [])"
  "client (self s) = Some c \<Longrightarrow> \<not> client_is_connected env c (world s) \<Longrightarrow>
     disconnect env s = (Inr (), s, [Is_connected False])"
  "client (self s) = Some c \<Longrightarrow> client_is_connected env c (world s) \<Longrightarrow>
   client_disconnect env c (world s) = (Inl e, w1) \<Longrightarrow>
     disconnect env s = (Inl e, s\<lparr>world := w1\<rparr>, [Is_connected True, Disconnect])"
  "client (self s) = Some c \<Longrightarrow> client_is_connected env c (world s) \<Longrightarrow>
   client_disconnect env c (world s) = (Inr u, w1) \<Longrightarrow>
     disconnect env s =
       (Inr (), s\<lparr>world := w1\<rparr>, [Is_connected True, Disconnect, Print ''Disconnected.''])"
  by (simp_all add: disconnect_def io_defs)

subsection \<open>Evaluating the commands on the simulated device\<close>

lemma sim_lower_status:
  "sim_lower ''Machine number updated successfully'' = ''machine number updated successfully''"
  by code_simp

lemmas run_defs = main_def asyncio_run_def configure_machine_def read_configuration_def
  with_config_def try_finally_def try_except_def configure_body_def read_body_def connect_def
  disconnect_def authenticate_def read_machine_number_def write_machine_number_def init_def
  io_defs sim_env_def sim0_def AUTH_CHAR_UUID_def MACHINE_NUM_CHAR_UUID_def STATUS_CHAR_UUID_def



subsection \<open>Exceptions and the exit status\<close>

lemma disconnect_returns:
  assumes "\<forall>c w. \<exists>w'. client_disconnect env c w = (Inr (), w')"
  shows "\<exists>s' t. disconnect env s = (Inr (), s', t)"
proof (cases "client (self s)")
  case None
  then show ?thesis by (simp add: disconnect_cases)
next
  case (Some c)
  from assms obtain w' where "client_disconnect env c (world s) = (Inr (), w')" by blast
  with Some show ?thesis
    by (cases "client_is_connected env c (world s)") (simp_all add: disconnect_cases)
qed

lemma try_finally_returns:
  assumes "fin (fst (snd (m s))) = (Inr u, s', t)"
  shows "fst (try_finally m fin s) = fst (m s)"
proof -
  obtain r s1 t1 where m: "m s = (r, s1, t1)" by (cases "m s") auto
  with assms show ?thesis by (simp add: try_finally_def)
qed

lemma try_except_read_returns:
  "\<exists>x. fst (try_except m (\<lambda>e. print (''Error: '' @ message e)) s) = Inr x"
proof -
  obtain r s1 t1 where m: "m s = (r, s1, t1)" by (cases "m s") auto
  then show ?thesis by (cases r) (simp_all add: try_except_def io_defs)
qed

lemma try_except_configure_returns:
  "\<exists>x. fst (try_except m (\<lambda>e. io_bind (print (''Error: '' @ message e)) (\<lambda>_. ret False)) s) = Inr x"
proof -
  obtain r s1 t1 where m: "m s = (r, s1, t1)" by (cases "m s") auto
  then show ?thesis by (cases r) (auto simp add: try_except_def io_defs)
qed

lemma read_configuration_returns:
  assumes "\<forall>c w. \<exists>w'. client_disconnect env c w = (Inr (), w')"
  shows "\<exists>x. fst (read_configuration env a p w) = Inr x"
proof -
  let ?m = "try_except (read_body env) (\<lambda>e. print (''Error: '' @ message e))"
  let ?s = "\<lparr>self = init a p, world = w\<rparr>"
  from disconnect_returns [OF assms] obtain s' t
    where "disconnect env (fst (snd (?m ?s))) = (Inr (), s', t)" by blast
  then have "fst (try_finally ?m (disconnect env) ?s) = fst (?m ?s)"
    by (rule try_finally_returns)
  moreover obtain x where "fst (?m ?s) = Inr x" using try_except_read_returns by blast
  ultimately show ?thesis
    by (auto simp: read_configuration_def with_config_def split: prod.splits)
qed

lemma configure_machine_returns:
  assumes "\<forall>c w. \<exists>w'. client_disconnect env c w = (Inr (), w')"
  shows "\<exists>x. fst (configure_machine env a n p w) = Inr x"
proof -
  let ?m = "try_except (configure_body env n)
              (\<lambda>e. io_bind (print (''Error: '' @ message e)) (\<lambda>_. ret False))"
  let ?s = "\<lparr>self = init a p, world = w\<rparr>"
  from disconnect_returns [OF assms] obtain s' t
    where "disconnect env (fst (snd (?m ?s))) = (Inr (), s', t)" by blast
  then have "fst (try_finally ?m (disconnect env) ?s) = fst (?m ?s)"
    by (rule try_finally_returns)
  moreover obtain x where "fst (?m ?s) = Inr x" using try_except_configure_returns by blast
  ultimately show ?thesis
    by (auto simp: configure_machine_def with_config_def split: prod.splits)
qed

lemma asyncio_run_returns: "fst (coro w) = Inr x \<Longrightarrow> fst (asyncio_run coro w) = Returned"
  by (cases "coro w") (simp add: asyncio_run_def)

text \<open>
  What \<open>main\<close> does by design: it drops the result of the command. So as long as no
  exception escapes the command (\<open>client.disconnect()\<close> does not raise and, for the scan
  command, the scanner does not raise), the exit status is 0 whenever \<open>--scan\<close> is given
  or a non-empty address is present, whatever \<open>connect\<close>, \<open>authenticate\<close>, the reads
  and the write did and whatever \<open>configure_machine\<close> returned.
\<close>

lemma main_exit_status_caught:
  assumes "\<forall>c w. \<exists>w'. client_disconnect env c w = (Inr (), w')"
    and "args_scan args \<longrightarrow> (\<exists>devices w'. discover env 5000 w = (Inr devices, w'))"
    and "args_scan args \<or> truthy (args_address args)"
  shows "exit_status (fst (main env args w)) = 0"
proof (cases "args_scan args")
  case True
  with assms(2) obtain devices w' where "discover env 5000 w = (Inr devices, w')" by blast
  then have "\<exists>x. fst (scan_devices env w) = Inr x" by (simp add: scan_devices_ok(1))
  then obtain x where "fst (scan_devices env w) = Inr x" ..
  then have "fst (asyncio_run (scan_devices env) w) = Returned"
    by (rule asyncio_run_returns)
  with True show ?thesis by (simp add: main_def)
next
  case False
  with assms(3) have addr: "truthy (args_address args)" by simp
  have r: "fst (asyncio_run (read_configuration env a p) w) = Returned" for a p
  proof -
    from read_configuration_returns [OF assms(1)]
    obtain x where "fst (read_configuration env a p w) = Inr x" by blast
    then show ?thesis by (rule asyncio_run_returns)
  qed
  have c: "fst (asyncio_run (configure_machine env a n p) w) = Returned" for a n p
  proof -
    from configure_machine_returns [OF assms(1)]
    obtain x where "fst (configure_machine env a n p w) = Inr x" by blast
    then show ?thesis by (rule asyncio_run_returns)
  qed
  from False addr show ?thesis by (simp add: main_def r c)
qed

text \<open>
  Claim C9. With \<open>--scan\<close> given, the exit status is to be 0 whether the scan
  worked or not. It is not when the scanner raises: \<open>scan_devices\<close> has no handler,
  the exception leaves \<open>asyncio.run\<close> and \<open>main\<close> uncaught, and the interpreter exits
  with status 1.
\<close>

theorem main_scan_uncaught:
  "main (sim_env ''fullwash2025'' (Inl (Exception ''Bluetooth device is turned off'')))
      \<lparr>args_scan = True, args_read = False, args_configure = None, args_address = None,
       args_password = ''fullwash2025''\<rparr> sim0
   = (Uncaught (Exception ''Bluetooth device is turned off''), sim0,
      [Print ''Scanning for BLE devices...'', Discover 5000])
   \<and> exit_status (fst (main (sim_env ''fullwash2025'' (Inl (Exception ''Bluetooth device is turned off'')))
      \<lparr>args_scan = True, args_read = False, args_configure = None, args_address = None,
       args_password = ''fullwash2025''\<rparr> sim0)) = 1"
  by (simp add: main_def asyncio_run_def scan_devices_def sim_env_def)

text \<open>
  Claim C5. The scan command has no handler: when the scanner raises, \<open>scan_devices\<close>
  ends with that exception after its first line of output, and nothing is printed for
  it.
\<close>

theorem scan_devices_raises:
  "scan_devices (sim_env ''fullwash2025'' (Inl (Exception ''Bluetooth device is turned off''))) sim0
   = (Inl (Exception ''Bluetooth device is turned off''), sim0,
      [Print ''Scanning for BLE devices...'', Discover 5000])"
  by (simp add: scan_devices_def sim_env_def)

subsection \<open>The arguments of the command line\<close>

text \<open>
  Claim C4. \<open>main\<close> selects the first of scan, read and configure whose option is
  set. When the command it selects is read (no \<open>--scan\<close>, \<open>--read\<close> given) or configure
  (neither \<open>--scan\<close> nor \<open>--read\<close>, \<open>--configure\<close> with a non-empty argument) and the
  address is absent or empty, it prints an error line and the help text, calls nothing
  else, and leaves through \<open>sys.exit(1)\<close>: the exit status is not 0.
\<close>

theorem main_requires_address:
  assumes "\<not> args_scan args"
    and "args_read args \<or> truthy (args_configure args)"
    and "\<not> truthy (args_address args)"
  shows "main env args w =
           (Sys_exit 1, w,
            [Print (''Error: --address is required for ''
                      @ (if args_read args then ''--read'' else ''--configure'')),
             Print_help])
         \<and> exit_status (fst (main env args w)) \<noteq> 0"
  using assms by (auto simp: main_def)


theorem main_requires_address_witness:
  "main (sim_env ''fullwash2025'' (Inr []))
      \<lparr>args_scan = False, args_read = True, args_configure = None, args_address = None,
       args_password = ''fullwash2025''\<rparr> sim0
   = (Sys_exit 1, sim0, [Print ''Error: --address is required for --read'', Print_help])"
  using main_requires_address [of
      "\<lparr>args_scan = False, args_read = True, args_configure = None, args_address = None,
        args_password = ''fullwash2025''\<rparr>" "sim_env ''fullwash2025'' (Inr [])" sim0]
  by simp

text \<open>
  Claim C8. \<open>main\<close> passes the text after \<open>--configure\<close> on as it is, and
  \<open>write_machine_number\<close> writes it: with \<open>--configure abc\<close> the bytes \<open>abc\<close> are
  written to the machine-number characteristic and stored by the device, and \<open>abc\<close> is
  the text of no integer.
\<close>

theorem main_configure_not_a_number:
  "Write_gatt_char MACHINE_NUM_CHAR_UUID ''abc''
     \<in> set (snd (snd (main (sim_env ''fullwash2025'' (Inr []))
          \<lparr>args_scan = False, args_read = False, args_configure = Some ''abc'',
           args_address = Some ''AA:BB:CC:DD:EE:FF'', args_password = ''fullwash2025''\<rparr> sim0)))
   \<and> sim_number (fst (snd (main (sim_env ''fullwash2025'' (Inr []))
          \<lparr>args_scan = False, args_read = False, args_configure = Some ''abc'',
           args_address = Some ''AA:BB:CC:DD:EE:FF'', args_password = ''fullwash2025''\<rparr> sim0)))
       = ''abc''
   \<and> show_int i \<noteq> ''abc''"
  using not_int_text [of i] by (simp add: run_defs sim_lower_status sublist_code)

subsection \<open>The password gate\<close>

lemma connect_self:
  "connect env s = (r, s1, t) \<Longrightarrow>
     password (self s1) = password (self s) \<and> device_address (self s1) = device_address (self s)"
  by (auto simp: connect_def io_defs split: prod.splits sum.splits)

lemma connect_no_write: "Write_gatt_char u d \<notin> set (snd (snd (connect env s)))"
  by (auto simp: connect_def io_defs split: prod.splits sum.splits)

lemma disconnect_no_write: "Write_gatt_char u d \<notin> set (snd (snd (disconnect env s)))"
  by (auto simp: disconnect_def io_defs split: prod.splits sum.splits option.splits)

lemma authenticate_no_machine_write:
  "Write_gatt_char MACHINE_NUM_CHAR_UUID d \<notin> set (snd (snd (authenticate env s)))"
proof -
  have "steady (\<lambda>ev. \<forall>d. ev \<noteq> Write_gatt_char MACHINE_NUM_CHAR_UUID d) (authenticate env)"
    by (rule steady_authenticate) (simp_all add: AUTH_CHAR_UUID_def MACHINE_NUM_CHAR_UUID_def)
  then show ?thesis by (auto simp: steady_def)
qed

lemma configure_body_cases:
  "connect env s = (Inl e, s1, t0) \<Longrightarrow> configure_body env n s = (Inl e, s1, t0)"
  "connect env s = (Inr u, s1, t0) \<Longrightarrow> authenticate env s1 = (Inl e, s2, ta) \<Longrightarrow>
     configure_body env n s = (Inl e, s2, t0 @ ta)"
  "connect env s = (Inr u, s1, t0) \<Longrightarrow> authenticate env s1 = (Inr False, s2, ta) \<Longrightarrow>
     configure_body env n s =
       (Inr False, s2, t0 @ ta @ [Print ''Authentication failed. Cannot configure machine.''])"
  by (simp_all add: configure_body_def io_bind_def print_def emit_def ret_def)

lemma configure_body_authenticated:
  "connect env s = (Inr u, s1, t0) \<Longrightarrow> authenticate env s1 = (Inr True, s2, ta) \<Longrightarrow>
     \<exists>r s3 tb. configure_body env n s = (r, s3, t0 @ ta @ tb)"
  by (simp add: configure_body_def io_bind_def [of "connect env"]
      io_bind_def [of "authenticate env"] split: prod.splits)

lemma configure_machine_unfold:
  "configure_body env n \<lparr>self = init a p, world = w\<rparr> = (Inr x, s1, tb) \<Longrightarrow>
     configure_machine env a n p w =
       ((case fst (disconnect env s1) of Inl e \<Rightarrow> Inl e | Inr u \<Rightarrow> Inr x),
        world (fst (snd (disconnect env s1))),
        tb @ snd (snd (disconnect env s1)))"
  "configure_body env n \<lparr>self = init a p, world = w\<rparr> = (Inl e, s1, tb) \<Longrightarrow>
     configure_machine env a n p w =
       ((case fst (disconnect env s1) of Inl e \<Rightarrow> Inl e | Inr u \<Rightarrow> Inr False),
        world (fst (snd (disconnect env s1))),
        tb @ Print (''Error: '' @ message e) # snd (snd (disconnect env s1)))"
  by (simp_all add: configure_machine_def with_config_def try_finally_def try_except_def
      io_bind_def print_def emit_def ret_def split: prod.splits sum.splits)

text \<open>
  The closing \<open>disconnect\<close> runs outside the handler: when it raises, its exception
  is the outcome of the command, whatever the \<open>try\<close> part had returned.
\<close>

lemma disconnect_exception_escapes:
  assumes "configure_body env n \<lparr>self = init a p, world = w\<rparr> = (r, s1, tb)"
    and "fst (disconnect env s1) = Inl e"
  shows "fst (configure_machine env a n p w) = Inl e"
  using assms configure_machine_unfold [of env n a p w _ s1 tb]
  by (cases r) simp_all

lemma split_after:
  assumes "pre @ x # post = xs @ ys" and "x \<notin> set xs"
  shows "\<exists>rest. pre = xs @ rest"
  using assms
proof (induction xs arbitrary: pre)
  case Nil
  then show ?case by simp
next
  case (Cons y xs)
  then show ?case by (cases pre) auto
qed

lemma configure_gate:
  fixes env :: "('c, 'w) env"
  assumes t: "snd (snd (configure_machine env a n p w)) =
                pre @ Write_gatt_char MACHINE_NUM_CHAR_UUID d # post"
  shows "\<exists>t0 s1 ta s2 rest.
           connect env \<lparr>self = init a p, world = w\<rparr> = (Inr (), s1, t0) \<and>
           authenticate env s1 = (Inr True, s2, ta) \<and> pre = t0 @ ta @ rest"
proof -
  let ?W = "Write_gatt_char MACHINE_NUM_CHAR_UUID d"
  let ?s0 = "\<lparr>self = init a p, world = w\<rparr> :: ('c, 'w) state"
  have W: "?W \<in> set (snd (snd (configure_machine env a n p w)))" by (simp add: t)
  obtain rc s1 t0 where c: "connect env ?s0 = (rc, s1, t0)" by (cases "connect env ?s0") auto
  have nc: "?W \<notin> set t0" using connect_no_write [of _ _ env ?s0] c by simp
  have nd: "?W \<notin> set (snd (snd (disconnect env s')))" for s' by (rule disconnect_no_write)
  show ?thesis
  proof (cases rc)
    case (Inl e)
    with c have "configure_body env n ?s0 = (Inl e, s1, t0)" by (simp add: configure_body_cases)
    from configure_machine_unfold(2) [OF this] W nc nd show ?thesis by simp
  next
    case (Inr u)
    obtain ra s2 ta where au: "authenticate env s1 = (ra, s2, ta)"
      by (cases "authenticate env s1") auto
    have na: "?W \<notin> set ta" using authenticate_no_machine_write [of d env s1] au by simp
    show ?thesis
    proof (cases ra)
      case (Inl e)
      with c Inr au have "configure_body env n ?s0 = (Inl e, s2, t0 @ ta)"
        by (simp add: configure_body_cases)
      from configure_machine_unfold(2) [OF this] W nc na nd show ?thesis by simp
    next
      case ok: (Inr b)
      show ?thesis
      proof (cases b)
        case False
        with c Inr au ok have "configure_body env n ?s0 =
            (Inr False, s2, t0 @ ta @ [Print ''Authentication failed. Cannot configure machine.''])"
          by (simp add: configure_body_cases)
        from configure_machine_unfold(1) [OF this] W nc na nd show ?thesis by simp
      next
        case True
        with c Inr au ok obtain r s3 tb where b: "configure_body env n ?s0 = (r, s3, t0 @ ta @ tb)"
          using configure_body_authenticated [of env ?s0 u s1 t0 s2 ta n] by auto
        have "\<exists>ys. snd (snd (configure_machine env a n p w)) = (t0 @ ta) @ ys"
          using configure_machine_unfold [of env n a p w _ s3 "t0 @ ta @ tb"] b
          by (cases r) auto
        then obtain ys where "pre @ ?W # post = (t0 @ ta) @ ys" using t by auto
        from split_after [OF this] nc na obtain rest where "pre = (t0 @ ta) @ rest" by auto
        with c Inr au ok True show ?thesis by auto
      qed
    qed
  qed
qed

lemma configure_refused:
  fixes env :: "('c, 'w) env"
  assumes c: "connect env \<lparr>self = init a p, world = w\<rparr> = (Inr (), s1, t0)"
    and au: "authenticate env s1 = (Inr False, s2, ta)"
  shows "configure_machine env a n p w =
           ((case fst (disconnect env s2) of Inl e \<Rightarrow> Inl e | Inr u \<Rightarrow> Inr False),
            world (fst (snd (disconnect env s2))),
            t0 @ ta @ Print ''Authentication failed. Cannot configure machine.''
              # snd (snd (disconnect env s2)))"
    and "Write_gatt_char u d \<notin> set t0"
    and "Write_gatt_char u d \<notin>
           set (Print ''Authentication failed. Cannot configure machine.'' # snd (snd (disconnect env s2)))"
    and "Write_gatt_char u d \<in> set ta \<Longrightarrow> u = AUTH_CHAR_UUID \<and> str_encode env p = Inr d"
proof -
  let ?s0 = "\<lparr>self = init a p, world = w\<rparr> :: ('c, 'w) state"
  from c au have "configure_body env n ?s0 =
      (Inr False, s2, t0 @ ta @ [Print ''Authentication failed. Cannot configure machine.''])"
    by (simp add: configure_body_cases)
  from configure_machine_unfold(1) [OF this]
  show "configure_machine env a n p w =
           ((case fst (disconnect env s2) of Inl e \<Rightarrow> Inl e | Inr u \<Rightarrow> Inr False),
            world (fst (snd (disconnect env s2))),
            t0 @ ta @ Print ''Authentication failed. Cannot configure machine.''
              # snd (snd (disconnect env s2)))" by simp
  show "Write_gatt_char u d \<notin> set t0" using connect_no_write [of u d env ?s0] c by simp
  show "Write_gatt_char u d \<notin>
           set (Print ''Authentication failed. Cannot configure machine.'' # snd (snd (disconnect env s2)))"
    using disconnect_no_write [of u d env s2] by simp
  assume in_ta: "Write_gatt_char u d \<in> set ta"
  have pw: "password (self s1) = p" using connect_self [OF c] by (simp add: init_def)
  from au have "fst (authenticate env s1) = Inr False" by simp
  from authenticate_returns [OF this] obtain c' data w1 status w2 status_str where
    f: "client (self s1) = Some c'" "str_encode env (password (self s1)) = Inr data"
       "write_gatt_char env c' AUTH_CHAR_UUID data (world s1) = (Inr (), w1)"
       "read_gatt_char env c' STATUS_CHAR_UUID w1 = (Inr status, w2)"
       "bytes_decode env status = Inr status_str" by blast
  from authenticate_ok [OF f] au in_ta pw f(2)
  show "u = AUTH_CHAR_UUID \<and> str_encode env p = Inr d" by (auto split: if_splits)
qed

text \<open>
  The gate. In every execution of \<open>configure_machine\<close>, a write to the machine-number
  characteristic comes after all the events of a call of \<open>authenticate\<close> that returned
  \<open>True\<close>. When \<open>authenticate\<close> returns \<open>False\<close>, the password write inside
  \<open>authenticate\<close> is the only write of the execution: nothing is written before it,
  and after it only the refusal is printed and \<open>disconnect\<close> runs; the \<open>try\<close> part
  yields \<open>False\<close>, and that is the result of the command when \<open>disconnect\<close> returns.
\<close>

lemma configure_machine_gated:
  fixes env :: "('c, 'w) env"
  shows
  "(\<forall>pre d post.
      snd (snd (configure_machine env a n p w)) =
        pre @ Write_gatt_char MACHINE_NUM_CHAR_UUID d # post \<longrightarrow>
      (\<exists>t0 s1 ta s2 rest.
         connect env \<lparr>self = init a p, world = w\<rparr> = (Inr (), s1, t0) \<and>
         authenticate env s1 = (Inr True, s2, ta) \<and> pre = t0 @ ta @ rest))
   \<and> (\<forall>t0 s1 ta s2.
        connect env \<lparr>self = init a p, world = w\<rparr> = (Inr (), s1, t0) \<and>
        authenticate env s1 = (Inr False, s2, ta) \<longrightarrow>
        configure_machine env a n p w =
          ((case fst (disconnect env s2) of Inl e \<Rightarrow> Inl e | Inr u \<Rightarrow> Inr False),
           world (fst (snd (disconnect env s2))),
           t0 @ ta @ Print ''Authentication failed. Cannot configure machine.''
             # snd (snd (disconnect env s2)))
        \<and> (\<forall>u d. Write_gatt_char u d \<notin> set t0
              \<and> Write_gatt_char u d \<notin>
                  set (Print ''Authentication failed. Cannot configure machine.''
                         # snd (snd (disconnect env s2)))
              \<and> (Write_gatt_char u d \<in> set ta \<longrightarrow>
                   u = AUTH_CHAR_UUID \<and> str_encode env p = Inr d)))"
proof (intro conjI allI impI; (elim conjE)?)
  fix pre d post
  assume "snd (snd (configure_machine env a n p w)) =
            pre @ Write_gatt_char MACHINE_NUM_CHAR_UUID d # post"
  then show "\<exists>t0 s1 ta s2 rest.
         connect env \<lparr>self = init a p, world = w\<rparr> = (Inr (), s1, t0) \<and>
         authenticate env s1 = (Inr True, s2, ta) \<and> pre = t0 @ ta @ rest"
    by (rule configure_gate)
qed (simp_all add: configure_refused disconnect_no_write)

text \<open>
  Claim C3. The gate holds, but a failed authentication does not always end in the
  return of \<open>False\<close>: the closing \<open>disconnect\<close> runs outside the handler, and when
  \<open>client.disconnect()\<close> raises there, \<open>configure_machine\<close> has printed its refusal,
  has written nothing but the password, and ends with that exception in place of
  \<open>False\<close>.
\<close>

theorem configure_machine_refusal_raises:
  "configure_machine failing_disconnect ''AA:BB'' (PyStr ''42'') ''wrong'' sim0
   = (Inl (Exception ''Disconnect failed''),
      \<lparr>sim_connected = True, sim_status = ''Authentication failed'', sim_number = ''7''\<rparr>,
      [Print ''Connecting to AA:BB...'', New_client ''AA:BB'', Connect,
       Print ''Connected successfully!'',
       Print ''Authenticating...'',
       Write_gatt_char AUTH_CHAR_UUID ''wrong'',
       Sleep 500,
       Read_gatt_char STATUS_CHAR_UUID,
       Print ''Status: Authentication failed'',
       Print (cross_mark @ '' Authentication failed!''),
       Print ''Authentication failed. Cannot configure machine.'',
       Is_connected True, Disconnect])"
  by (simp add: failing_disconnect_def run_defs sublist_code)

subsection \<open>Closing the connection\<close>











end
